theory Spec2Isabelle
  imports Main "HOL-Library.Word"
begin

unbundle bit_operations_syntax

section \<open>The hypervisor core-control driver (drivers/soc/qcom/hyp_core_ctl.c)\<close>

subsection \<open>CPU masks\<close>

text \<open>
  A \<open>cpumask_t\<close> is a bitmap with one bit per possible CPU. It is modelled as a word whose
  width \<open>LENGTH('n)\<close> stands for the number of CPU ids (\<open>nr_cpu_ids\<close>, taken equal to
  \<open>NR_CPUS\<close>); bit \<open>i\<close> is set when CPU \<open>i\<close> is in the mask. The helpers below are the
  ones of \<open>linux/cpumask.h\<close> that the driver uses, with their bitmap meaning.
\<close>

type_synonym 'n cpumask = "'n word"

definition nr_cpu_ids :: "'n::len cpumask \<Rightarrow> nat" where
  "nr_cpu_ids m = LENGTH('n)"

definition cpumask_test_cpu :: "nat \<Rightarrow> 'n::len cpumask \<Rightarrow> bool" where
  "cpumask_test_cpu cpu m = bit m cpu"

definition cpumask_set_cpu :: "nat \<Rightarrow> 'n::len cpumask \<Rightarrow> 'n cpumask" where
  "cpumask_set_cpu cpu m = set_bit cpu m"

definition cpumask_clear_cpu :: "nat \<Rightarrow> 'n::len cpumask \<Rightarrow> 'n cpumask" where
  "cpumask_clear_cpu cpu m = unset_bit cpu m"

definition cpumask_clear :: "'n::len cpumask" where
  "cpumask_clear = 0"

definition cpumask_andnot :: "'n::len cpumask \<Rightarrow> 'n cpumask \<Rightarrow> 'n cpumask" where
  "cpumask_andnot a b = a AND NOT b"

definition cpumask_or :: "'n::len cpumask \<Rightarrow> 'n cpumask \<Rightarrow> 'n cpumask" where
  "cpumask_or a b = a OR b"

definition cpumask_equal :: "'n::len cpumask \<Rightarrow> 'n cpumask \<Rightarrow> bool" where
  "cpumask_equal a b = (a = b)"

text \<open>
  \<open>for_each_cpu(cpu, mask)\<close> visits the CPUs of \<open>mask\<close> below \<open>nr_cpu_ids\<close> in ascending
  order. For a mask that the loop body does not change this is the list below.
\<close>

definition for_each_cpu :: "'n::len cpumask \<Rightarrow> nat list" where
  "for_each_cpu m = filter (\<lambda>cpu. cpumask_test_cpu cpu m) [0..<nr_cpu_ids m]"

text \<open>The CPUs of a mask as a set, to state properties.\<close>

definition cpus :: "'n::len cpumask \<Rightarrow> nat set" where
  "cpus m = set (for_each_cpu m)"

subsection \<open>Driver state and external collaborators\<close>

text \<open>
  \<open>struct hyp_core_ctl_data\<close>. The spinlock and the task pointer are left out: the model
  runs one operation at a time, and the only use of \<open>task\<close> is \<open>wake_up_process\<close>,
  which is recorded in the call log.
\<close>

record (overloaded) 'n hyp_core_ctl_data =
  pending :: bool
  reservation_enabled :: bool
  reserve_cpus :: "'n cpumask"
  our_isolated_cpus :: "'n cpumask"
  final_reserved_cpus :: "'n cpumask"

text \<open>
  The scheduler and hotplug core are not part of the driver. What the driver sees of them
  during one operation is taken as a parameter: the online mask and the return value of
  each isolation primitive for each CPU (negative is failure). One operation calls a
  primitive at most once per CPU, so a function of the CPU covers every outcome.
\<close>

record (overloaded) 'n platform =
  cpu_online_mask :: "'n cpumask"
  sched_isolate_cpu :: "nat \<Rightarrow> int"
  sched_unisolate_cpu :: "nat \<Rightarrow> int"

definition cpu_online :: "'n::len platform \<Rightarrow> nat \<Rightarrow> bool" where
  "cpu_online p cpu = cpumask_test_cpu cpu (cpu_online_mask p)"

text \<open>The calls the driver makes to its collaborators, logged in program order.\<close>

datatype call =
    Sched_isolate_cpu nat
  | Sched_unisolate_cpu nat
  | Sched_unisolate_cpu_unlocked nat
  | Wake_up_process

text \<open>Dereferencing \<open>the_hcd\<close> while it is \<open>NULL\<close>.\<close>

datatype fault = Null_pointer_dereference

definition EPERM :: int where
  "EPERM = 1"

definition EINVAL :: int where
  "EINVAL = 22"

subsection \<open>The reservation engine\<close>

text \<open>
  \<open>hyp_core_ctl_undo_reservation\<close>. The loop walks \<open>our_isolated_cpus\<close> while clearing
  bits of it, so the model scans the CPU ids in ascending order and tests the bit of the
  mask as it is when the scan reaches the CPU, which is what \<open>cpumask_next\<close> reads.
  The status printing only traces and is not modelled.
\<close>

fun undo_reservation_loop ::
  "'n::len platform \<Rightarrow> nat list \<Rightarrow> 'n hyp_core_ctl_data \<times> call list
    \<Rightarrow> 'n hyp_core_ctl_data \<times> call list" where
  "undo_reservation_loop p [] st = st"
| "undo_reservation_loop p (cpu # rest) (hcd, log) =
     (if \<not> cpumask_test_cpu cpu (our_isolated_cpus hcd)
      then undo_reservation_loop p rest (hcd, log)
      else
        let ret = sched_unisolate_cpu p cpu;
            log' = log @ [Sched_unisolate_cpu cpu]
        in if ret < 0
           then undo_reservation_loop p rest (hcd, log')
           else undo_reservation_loop p rest
                  (hcd\<lparr>our_isolated_cpus := cpumask_clear_cpu cpu (our_isolated_cpus hcd)\<rparr>,
                   log'))"

definition hyp_core_ctl_undo_reservation ::
  "'n::len platform \<Rightarrow> 'n hyp_core_ctl_data \<Rightarrow> 'n hyp_core_ctl_data \<times> call list" where
  "hyp_core_ctl_undo_reservation p hcd =
     undo_reservation_loop p [0..<nr_cpu_ids (our_isolated_cpus hcd)] (hcd, [])"

definition finalize_reservation ::
  "'n::len hyp_core_ctl_data \<Rightarrow> 'n cpumask \<Rightarrow> 'n hyp_core_ctl_data" where
  "finalize_reservation hcd temp =
     (if cpumask_equal temp (final_reserved_cpus hcd) then hcd
      else hcd\<lparr>final_reserved_cpus := temp\<rparr>)"

text \<open>
  The loop of \<open>hyp_core_ctl_do_reservation\<close> over the local copy \<open>iter_cpus\<close>; the loop
  state is the driver data, the local \<open>offline_cpus\<close> and the call log.
\<close>

fun do_reservation_loop ::
  "'n::len platform \<Rightarrow> nat list \<Rightarrow> 'n hyp_core_ctl_data \<times> 'n cpumask \<times> call list
    \<Rightarrow> 'n hyp_core_ctl_data \<times> 'n cpumask \<times> call list" where
  "do_reservation_loop p [] st = st"
| "do_reservation_loop p (i # rest) (hcd, offline_cpus, log) =
     (if \<not> cpu_online p i
      then do_reservation_loop p rest (hcd, cpumask_set_cpu i offline_cpus, log)
      else
        let ret = sched_isolate_cpu p i;
            log' = log @ [Sched_isolate_cpu i]
        in if ret < 0
           then do_reservation_loop p rest (hcd, offline_cpus, log')
           else do_reservation_loop p rest
                  (hcd\<lparr>our_isolated_cpus := cpumask_set_cpu i (our_isolated_cpus hcd)\<rparr>,
                   offline_cpus, log'))"

definition hyp_core_ctl_do_reservation ::
  "'n::len platform \<Rightarrow> 'n hyp_core_ctl_data \<Rightarrow> 'n hyp_core_ctl_data \<times> call list" where
  "hyp_core_ctl_do_reservation p hcd =
     (let offline_cpus = cpumask_clear;
          iter_cpus = cpumask_andnot (reserve_cpus hcd) (our_isolated_cpus hcd);
          (hcd', offline_cpus', log) =
             do_reservation_loop p (for_each_cpu iter_cpus) (hcd, offline_cpus, []);
          temp_reserved_cpus = cpumask_or (our_isolated_cpus hcd') offline_cpus'
      in (finalize_reservation hcd' temp_reserved_cpus, log))"

subsection \<open>Hotplug callbacks and the enable attribute\<close>

text \<open>
  The global pointer \<open>the_hcd\<close> is an option: \<open>None\<close> is \<open>NULL\<close>, its value before
  \<open>hyp_core_ctl_init\<close> has finished. Each handler returns its return value, the new
  \<open>the_hcd\<close> and the calls it made.
\<close>

definition hyp_core_ctl_hp_offline ::
  "nat \<Rightarrow> 'n::len hyp_core_ctl_data option \<Rightarrow> int \<times> 'n hyp_core_ctl_data option \<times> call list" where
  "hyp_core_ctl_hp_offline cpu the_hcd =
     (case the_hcd of
        None \<Rightarrow> (0, the_hcd, [])
      | Some hcd \<Rightarrow>
          if \<not> reservation_enabled hcd then (0, the_hcd, [])
          else if cpumask_test_cpu cpu (our_isolated_cpus hcd)
          then (0, Some (hcd\<lparr>our_isolated_cpus := cpumask_clear_cpu cpu (our_isolated_cpus hcd)\<rparr>),
                [Sched_unisolate_cpu_unlocked cpu])
          else (0, the_hcd, []))"

definition hyp_core_ctl_hp_online ::
  "nat \<Rightarrow> 'n::len hyp_core_ctl_data option \<Rightarrow> int \<times> 'n hyp_core_ctl_data option \<times> call list" where
  "hyp_core_ctl_hp_online cpu the_hcd =
     (case the_hcd of
        None \<Rightarrow> (0, the_hcd, [])
      | Some hcd \<Rightarrow>
          if \<not> reservation_enabled hcd then (0, the_hcd, [])
          else if cpumask_test_cpu cpu (final_reserved_cpus hcd)
          then (0, Some (hcd\<lparr>pending := True\<rparr>), [Wake_up_process])
          else (0, the_hcd, []))"

text \<open>
  \<open>hyp_core_ctl_enable\<close> takes the lock of \<open>the_hcd\<close> without a check, which faults when
  the pointer is \<open>NULL\<close>.
\<close>

definition hyp_core_ctl_enable ::
  "bool \<Rightarrow> 'n::len hyp_core_ctl_data option \<Rightarrow> fault + 'n hyp_core_ctl_data option \<times> call list" where
  "hyp_core_ctl_enable enable the_hcd =
     (case the_hcd of
        None \<Rightarrow> Inl Null_pointer_dereference
      | Some hcd \<Rightarrow>
          if enable = reservation_enabled hcd then Inr (the_hcd, [])
          else Inr (Some (hcd\<lparr>reservation_enabled := enable, pending := True\<rparr>),
                    [Wake_up_process]))"

text \<open>
  \<open>enable_store\<close>. \<open>kstrtobool\<close> belongs to the kernel library; it is a parameter that
  gives the return code and the value left in \<open>enable\<close>.
\<close>

definition enable_store ::
  "(string \<Rightarrow> int \<times> bool) \<Rightarrow> string \<Rightarrow> int \<Rightarrow> 'n::len hyp_core_ctl_data option
    \<Rightarrow> fault + int \<times> 'n hyp_core_ctl_data option \<times> call list" where
  "enable_store kstrtobool buf count the_hcd =
     (let (ret, enable) = kstrtobool buf
      in if ret < 0 then Inr (- EINVAL, the_hcd, [])
         else case hyp_core_ctl_enable enable the_hcd of
                Inl f \<Rightarrow> Inl f
              | Inr (the_hcd', log) \<Rightarrow> Inr (count, the_hcd', log))"

text \<open>
  \<open>enable_show\<close>: the value returned and, on success, the number printed into the
  buffer.
\<close>

definition enable_show :: "'n::len hyp_core_ctl_data option \<Rightarrow> int + nat" where
  "enable_show the_hcd =
     (case the_hcd of
        None \<Rightarrow> Inl (- EPERM)
      | Some hcd \<Rightarrow> Inr (if reservation_enabled hcd then 1 else 0))"

text \<open>
  The driver data as \<open>hyp_core_ctl_init\<close> leaves it: zeroed by \<open>kzalloc\<close>, with
  \<open>reserve_cpus\<close> parsed from the configured CPU list (the parameter).
\<close>

definition hyp_core_ctl_init :: "'n::len cpumask \<Rightarrow> 'n hyp_core_ctl_data" where
  "hyp_core_ctl_init reserve =
     \<lparr>pending = False, reservation_enabled = False, reserve_cpus = reserve,
      our_isolated_cpus = 0, final_reserved_cpus = 0\<rparr>"

subsection \<open>Reachable states\<close>

text \<open>
  One invocation of an operation of the driver, once \<open>the_hcd\<close> is set: the two engine
  functions under any platform behaviour, the toggle, and the two hotplug callbacks.
\<close>

inductive step :: "'n::len hyp_core_ctl_data \<Rightarrow> 'n hyp_core_ctl_data \<Rightarrow> bool" where
  apply_reservation: "step s (fst (hyp_core_ctl_do_reservation p s))"
| revert_reservation: "step s (fst (hyp_core_ctl_undo_reservation p s))"
| set_enabled: "hyp_core_ctl_enable enable (Some s) = Inr (Some s', log) \<Longrightarrow> step s s'"
| on_cpu_offline: "hyp_core_ctl_hp_offline cpu (Some s) = (ret, Some s', log) \<Longrightarrow> step s s'"
| on_cpu_online: "hyp_core_ctl_hp_online cpu (Some s) = (ret, Some s', log) \<Longrightarrow> step s s'"

inductive reachable :: "'n::len cpumask \<Rightarrow> 'n hyp_core_ctl_data \<Rightarrow> bool" where
  initial: "reachable reserve (hyp_core_ctl_init reserve)"
| after_step: "reachable reserve s \<Longrightarrow> step s s' \<Longrightarrow> reachable reserve s'"

subsection \<open>A platform for examples\<close>

text \<open>
  The platform with a given online mask on which \<open>sched_isolate_cpu\<close> returns \<open>r_iso\<close> and
  \<open>sched_unisolate_cpu\<close> returns \<open>r_uniso\<close> for every CPU. It is used only to run the driver
  on concrete inputs.
\<close>

definition uniform_platform :: "'n::len cpumask \<Rightarrow> int \<Rightarrow> int \<Rightarrow> 'n platform" where
  "uniform_platform online r_iso r_uniso =
     \<lparr>cpu_online_mask = online, sched_isolate_cpu = (\<lambda>cpu. r_iso),
      sched_unisolate_cpu = (\<lambda>cpu. r_uniso)\<rparr>"

section \<open>Properties\<close>

subsection \<open>CPU masks and the loops\<close>

lemma cpus_iff: "i \<in> cpus m \<longleftrightarrow> bit m i"
  by (auto simp add: cpus_def for_each_cpu_def cpumask_test_cpu_def nr_cpu_ids_def
      dest: bit_imp_le_length)

lemma set_for_each_cpu: "i \<in> set (for_each_cpu m) \<longleftrightarrow> bit m i"
  using cpus_iff [of i m] by (simp add: cpus_def)

lemma distinct_for_each_cpu: "distinct (for_each_cpu m)"
  by (simp add: for_each_cpu_def)

lemma do_loop_fields:
  "pending (fst (do_reservation_loop p xs (hcd, off, log))) = pending hcd \<and>
   reservation_enabled (fst (do_reservation_loop p xs (hcd, off, log))) = reservation_enabled hcd \<and>
   reserve_cpus (fst (do_reservation_loop p xs (hcd, off, log))) = reserve_cpus hcd \<and>
   final_reserved_cpus (fst (do_reservation_loop p xs (hcd, off, log))) = final_reserved_cpus hcd"
  by (induction xs arbitrary: hcd off log) (simp_all add: Let_def)

lemma do_loop_isolated:
  "bit (our_isolated_cpus (fst (do_reservation_loop p xs (hcd, off, log)))) j \<longleftrightarrow>
     bit (our_isolated_cpus hcd) j \<or>
     (j \<in> set xs \<and> cpu_online p j \<and> 0 \<le> sched_isolate_cpu p j)"
  by (induction xs arbitrary: hcd off log)
     (auto simp add: Let_def cpumask_set_cpu_def cpu_online_def cpumask_test_cpu_def bit_simps
        dest: bit_imp_le_length)

lemma do_loop_offline:
  "bit (fst (snd (do_reservation_loop p xs (hcd, off, log)))) j \<longleftrightarrow>
     bit off j \<or> (j \<in> set xs \<and> j < LENGTH('n) \<and> \<not> cpu_online p j)"
  for off :: "'n::len cpumask"
  by (induction xs arbitrary: hcd off log)
     (auto simp add: Let_def cpumask_set_cpu_def cpu_online_def cpumask_test_cpu_def bit_simps
        dest: bit_imp_le_length)

lemma do_loop_log:
  "snd (snd (do_reservation_loop p xs (hcd, off, log))) =
     log @ map Sched_isolate_cpu (filter (cpu_online p) xs)"
  by (induction xs arbitrary: hcd off log) (simp_all add: Let_def)

lemma finalize_fields:
  "pending (finalize_reservation hcd t) = pending hcd \<and>
   reservation_enabled (finalize_reservation hcd t) = reservation_enabled hcd \<and>
   reserve_cpus (finalize_reservation hcd t) = reserve_cpus hcd \<and>
   our_isolated_cpus (finalize_reservation hcd t) = our_isolated_cpus hcd \<and>
   final_reserved_cpus (finalize_reservation hcd t) = t"
  by (simp add: finalize_reservation_def cpumask_equal_def)

lemma do_reservation_fields:
  "pending (fst (hyp_core_ctl_do_reservation p hcd)) = pending hcd \<and>
   reservation_enabled (fst (hyp_core_ctl_do_reservation p hcd)) = reservation_enabled hcd \<and>
   reserve_cpus (fst (hyp_core_ctl_do_reservation p hcd)) = reserve_cpus hcd"
  using do_loop_fields [of p "for_each_cpu (cpumask_andnot (reserve_cpus hcd) (our_isolated_cpus hcd))"
      hcd cpumask_clear "[]"]
  by (auto simp add: hyp_core_ctl_do_reservation_def Let_def finalize_fields split: prod.splits)

lemma do_reservation_isolated:
  "bit (our_isolated_cpus (fst (hyp_core_ctl_do_reservation p hcd))) j \<longleftrightarrow>
     bit (our_isolated_cpus hcd) j \<or>
     (bit (reserve_cpus hcd) j \<and> cpu_online p j \<and> 0 \<le> sched_isolate_cpu p j)"
  using do_loop_isolated [of p "for_each_cpu (cpumask_andnot (reserve_cpus hcd) (our_isolated_cpus hcd))"
      hcd cpumask_clear "[]" j]
  by (auto simp add: hyp_core_ctl_do_reservation_def Let_def finalize_fields set_for_each_cpu
      cpumask_andnot_def bit_simps split: prod.splits dest: bit_imp_le_length)

lemma do_reservation_final:
  "bit (final_reserved_cpus (fst (hyp_core_ctl_do_reservation p hcd))) j \<longleftrightarrow>
     bit (our_isolated_cpus (fst (hyp_core_ctl_do_reservation p hcd))) j \<or>
     (bit (reserve_cpus hcd) j \<and> \<not> cpu_online p j)"
proof -
  let ?it = "for_each_cpu (cpumask_andnot (reserve_cpus hcd) (our_isolated_cpus hcd))"
  obtain h off lg where r: "do_reservation_loop p ?it (hcd, cpumask_clear, []) = (h, off, lg)"
    by (cases "do_reservation_loop p ?it (hcd, cpumask_clear, [])") auto
  have o: "bit off j \<longleftrightarrow> bit (reserve_cpus hcd) j \<and> \<not> bit (our_isolated_cpus hcd) j \<and> \<not> cpu_online p j"
    using do_loop_offline [of p ?it hcd cpumask_clear "[]" j] r
    by (auto simp add: set_for_each_cpu cpumask_andnot_def cpumask_clear_def bit_simps
        dest: bit_imp_le_length)
  have i: "bit (our_isolated_cpus h) j \<longleftrightarrow> bit (our_isolated_cpus hcd) j \<or>
     (bit (reserve_cpus hcd) j \<and> cpu_online p j \<and> 0 \<le> sched_isolate_cpu p j)"
    using do_reservation_isolated [of p hcd j] r
    by (simp add: hyp_core_ctl_do_reservation_def Let_def finalize_fields)
  show ?thesis
    using o i r
    by (auto simp add: hyp_core_ctl_do_reservation_def Let_def finalize_fields cpumask_or_def bit_simps)
qed

lemma do_reservation_log:
  "snd (hyp_core_ctl_do_reservation p hcd) =
     map Sched_isolate_cpu (filter (cpu_online p)
       (for_each_cpu (cpumask_andnot (reserve_cpus hcd) (our_isolated_cpus hcd))))"
  using do_loop_log [of p "for_each_cpu (cpumask_andnot (reserve_cpus hcd) (our_isolated_cpus hcd))"
      hcd cpumask_clear "[]"]
  by (auto simp add: hyp_core_ctl_do_reservation_def Let_def split: prod.splits)

lemma hcd_eqI:
  "pending a = pending b \<Longrightarrow> reservation_enabled a = reservation_enabled b \<Longrightarrow>
   reserve_cpus a = reserve_cpus b \<Longrightarrow> our_isolated_cpus a = our_isolated_cpus b \<Longrightarrow>
   final_reserved_cpus a = final_reserved_cpus b \<Longrightarrow> a = b"
  for a b :: "'n::len hyp_core_ctl_data"
  by simp

lemma undo_loop_fields:
  "pending (fst (undo_reservation_loop p xs (hcd, log))) = pending hcd \<and>
   reservation_enabled (fst (undo_reservation_loop p xs (hcd, log))) = reservation_enabled hcd \<and>
   reserve_cpus (fst (undo_reservation_loop p xs (hcd, log))) = reserve_cpus hcd \<and>
   final_reserved_cpus (fst (undo_reservation_loop p xs (hcd, log))) = final_reserved_cpus hcd"
  by (induction xs arbitrary: hcd log) (simp_all add: Let_def)

lemma undo_loop_isolated:
  "bit (our_isolated_cpus (fst (undo_reservation_loop p xs (hcd, log)))) j \<longleftrightarrow>
     bit (our_isolated_cpus hcd) j \<and> \<not> (j \<in> set xs \<and> 0 \<le> sched_unisolate_cpu p j)"
  by (induction xs arbitrary: hcd log)
     (auto simp add: Let_def cpumask_clear_cpu_def cpumask_test_cpu_def bit_simps)

lemma undo_loop_log:
  "distinct xs \<Longrightarrow>
   snd (undo_reservation_loop p xs (hcd, log)) =
     log @ map Sched_unisolate_cpu (filter (\<lambda>cpu. cpumask_test_cpu cpu (our_isolated_cpus hcd)) xs)"
proof (induction xs arbitrary: hcd log)
  case Nil
  then show ?case by simp
next
  case (Cons cpu rest)
  have same: "filter (\<lambda>c. cpumask_test_cpu c (cpumask_clear_cpu cpu (our_isolated_cpus hcd))) rest =
      filter (\<lambda>c. cpumask_test_cpu c (our_isolated_cpus hcd)) rest"
    using Cons.prems
    by (intro filter_cong) (auto simp add: cpumask_clear_cpu_def cpumask_test_cpu_def bit_simps)
  from Cons show ?case
    by (simp add: Let_def same)
qed

lemma undo_reservation_fields:
  "pending (fst (hyp_core_ctl_undo_reservation p hcd)) = pending hcd \<and>
   reservation_enabled (fst (hyp_core_ctl_undo_reservation p hcd)) = reservation_enabled hcd \<and>
   reserve_cpus (fst (hyp_core_ctl_undo_reservation p hcd)) = reserve_cpus hcd \<and>
   final_reserved_cpus (fst (hyp_core_ctl_undo_reservation p hcd)) = final_reserved_cpus hcd"
  by (simp add: hyp_core_ctl_undo_reservation_def undo_loop_fields)

lemma undo_reservation_isolated:
  "bit (our_isolated_cpus (fst (hyp_core_ctl_undo_reservation p hcd))) j \<longleftrightarrow>
     bit (our_isolated_cpus hcd) j \<and> sched_unisolate_cpu p j < 0"
  by (auto simp add: hyp_core_ctl_undo_reservation_def undo_loop_isolated nr_cpu_ids_def
      dest: bit_imp_le_length)

lemma undo_reservation_log:
  "snd (hyp_core_ctl_undo_reservation p hcd) =
     map Sched_unisolate_cpu (for_each_cpu (our_isolated_cpus hcd))"
  by (simp add: hyp_core_ctl_undo_reservation_def undo_loop_log for_each_cpu_def nr_cpu_ids_def)

lemma isolate_called_iff:
  "Sched_isolate_cpu c \<in> set (snd (hyp_core_ctl_do_reservation p hcd)) \<longleftrightarrow>
     bit (reserve_cpus hcd) c \<and> \<not> bit (our_isolated_cpus hcd) c \<and> cpu_online p c"
  by (auto simp add: do_reservation_log set_for_each_cpu cpumask_andnot_def bit_simps
      dest: bit_imp_le_length)

lemma cpu_online_cong:
  "cpu_online_mask p' = cpu_online_mask p \<Longrightarrow> cpu_online p' = cpu_online p"
  by (simp add: cpu_online_def fun_eq_iff)

lemma do_reservation_settled:
  assumes "\<forall>c. bit (reserve_cpus s) c \<and> cpu_online p c \<longrightarrow> bit (our_isolated_cpus s) c"
  shows "snd (hyp_core_ctl_do_reservation p s) = []"
    and "our_isolated_cpus (fst (hyp_core_ctl_do_reservation p s)) = our_isolated_cpus s"
proof -
  show "snd (hyp_core_ctl_do_reservation p s) = []"
    using assms
    by (auto simp add: do_reservation_log filter_empty_conv set_for_each_cpu cpumask_andnot_def
        bit_simps)
  show "our_isolated_cpus (fst (hyp_core_ctl_do_reservation p s)) = our_isolated_cpus s"
    using assms by (intro bit_eqI) (auto simp add: do_reservation_isolated)
qed

lemma do_reservation_again:
  assumes ok: "\<forall>c. Sched_isolate_cpu c \<in> set (snd (hyp_core_ctl_do_reservation p hcd))
            \<longrightarrow> 0 \<le> sched_isolate_cpu p c"
    and same: "cpu_online_mask p' = cpu_online_mask p"
  shows "hyp_core_ctl_do_reservation p' (fst (hyp_core_ctl_do_reservation p hcd)) =
           (fst (hyp_core_ctl_do_reservation p hcd), [])"
proof -
  let ?s = "fst (hyp_core_ctl_do_reservation p hcd)"
  have on: "cpu_online p' = cpu_online p"
    using same by (rule cpu_online_cong)
  have r: "reserve_cpus ?s = reserve_cpus hcd"
    by (simp add: do_reservation_fields)
  have settled: "\<forall>c. bit (reserve_cpus ?s) c \<and> cpu_online p' c \<longrightarrow> bit (our_isolated_cpus ?s) c"
    using ok by (auto simp add: r on isolate_called_iff do_reservation_isolated)
  have iso: "our_isolated_cpus (fst (hyp_core_ctl_do_reservation p' ?s)) = our_isolated_cpus ?s"
    using settled by (rule do_reservation_settled)
  have fin: "final_reserved_cpus (fst (hyp_core_ctl_do_reservation p' ?s)) = final_reserved_cpus ?s"
    by (intro bit_eqI) (simp add: do_reservation_final [of p' ?s] do_reservation_final [of p hcd] iso r on)
  have "fst (hyp_core_ctl_do_reservation p' ?s) = ?s"
    by (rule hcd_eqI) (simp_all add: do_reservation_fields iso fin)
  moreover have "snd (hyp_core_ctl_do_reservation p' ?s) = []"
    using settled by (rule do_reservation_settled)
  ultimately show ?thesis
    by (simp add: prod_eq_iff)
qed

lemma step_isolated:
  assumes "step s s'"
  shows "reserve_cpus s' = reserve_cpus s"
    and "bit (our_isolated_cpus s') j \<Longrightarrow> bit (our_isolated_cpus s) j \<or> bit (reserve_cpus s) j"
  using assms
  by (induction rule: step.induct)
     (auto simp add: do_reservation_fields do_reservation_isolated undo_reservation_fields
        undo_reservation_isolated hyp_core_ctl_enable_def hyp_core_ctl_hp_offline_def
        hyp_core_ctl_hp_online_def cpumask_clear_cpu_def bit_simps split: if_splits)

lemma reachable_isolated:
  assumes "reachable reserve s"
  shows "reserve_cpus s = reserve \<and> (\<forall>j. bit (our_isolated_cpus s) j \<longrightarrow> bit (reserve_cpus s) j)"
  using assms
proof (induction rule: reachable.induct)
  case (initial reserve)
  show ?case by (simp add: hyp_core_ctl_init_def)
next
  case (after_step reserve s s')
  then show ?case
    using step_isolated [of s s'] by metis
qed

subsection \<open>The reserved set\<close>

text \<open>
  C1, as stated: in every state reached from the initial one by invocations of the
  operations, \<open>final_reserved_cpus\<close> is \<open>our_isolated_cpus\<close> together with the offline CPUs
  of \<open>reserve_cpus\<close>. It fails after a reservation followed by its undoing, with CPUs 0
  to 3 all online, \<open>reserve_cpus = {2, 3}\<close> and every primitive succeeding: the undoing
  empties \<open>our_isolated_cpus\<close> and leaves \<open>final_reserved_cpus = {2, 3}\<close>.
\<close>

theorem reserved_invariant_counterexample:
  "cpus (final_reserved_cpus
     (fst (hyp_core_ctl_undo_reservation (uniform_platform 15 0 0)
        (fst (hyp_core_ctl_do_reservation (uniform_platform 15 0 0)
           (hyp_core_ctl_init (12 :: 4 word))))))) \<noteq>
   cpus (our_isolated_cpus
     (fst (hyp_core_ctl_undo_reservation (uniform_platform 15 0 0)
        (fst (hyp_core_ctl_do_reservation (uniform_platform 15 0 0)
           (hyp_core_ctl_init (12 :: 4 word))))))) \<union>
   {c. c \<in> cpus (reserve_cpus
     (fst (hyp_core_ctl_undo_reservation (uniform_platform 15 0 0)
        (fst (hyp_core_ctl_do_reservation (uniform_platform 15 0 0)
           (hyp_core_ctl_init (12 :: 4 word)))))))
      \<and> \<not> cpu_online (uniform_platform (15 :: 4 word) 0 0) c}"
proof -
  have s: "fst (hyp_core_ctl_undo_reservation (uniform_platform 15 0 0)
        (fst (hyp_core_ctl_do_reservation (uniform_platform 15 0 0)
           (hyp_core_ctl_init (12 :: 4 word))))) =
      \<lparr>pending = False, reservation_enabled = False, reserve_cpus = 12,
       our_isolated_cpus = 0, final_reserved_cpus = 12\<rparr>"
    by code_simp
  have "(2 :: nat) \<in> cpus (12 :: 4 word)"
    by code_simp
  moreover have "(2 :: nat) \<notin> cpus (0 :: 4 word)"
    by code_simp
  moreover have "cpu_online (uniform_platform (15 :: 4 word) 0 0) 2"
    by code_simp
  ultimately show ?thesis
    unfolding s by auto
qed

text \<open>
  C1, amended: when \<open>hyp_core_ctl_do_reservation\<close> returns, \<open>final_reserved_cpus\<close> is
  \<open>our_isolated_cpus\<close> together with the CPUs of \<open>reserve_cpus\<close> that the call saw offline,
  and \<open>reserve_cpus\<close> is what it was.
\<close>

theorem do_reservation_reserved_set:
  "cpus (final_reserved_cpus (fst (hyp_core_ctl_do_reservation p hcd))) =
     cpus (our_isolated_cpus (fst (hyp_core_ctl_do_reservation p hcd))) \<union>
     {c. c \<in> cpus (reserve_cpus hcd) \<and> \<not> cpu_online p c}
   \<and> reserve_cpus (fst (hyp_core_ctl_do_reservation p hcd)) = reserve_cpus hcd"
  by (auto simp add: cpus_iff do_reservation_final do_reservation_fields)

text \<open>
  C4: in every state reached from the initial one by invocations of the operations,
  \<open>our_isolated_cpus\<close> is a subset of \<open>reserve_cpus\<close>, which is still the configured set;
  and one invocation of any operation adds to \<open>our_isolated_cpus\<close> only CPUs of
  \<open>reserve_cpus\<close>, which it leaves unchanged.
\<close>

theorem isolated_subset_reserve:
  "(reachable reserve s \<longrightarrow>
      cpus (our_isolated_cpus s) \<subseteq> cpus (reserve_cpus s) \<and> reserve_cpus s = reserve)
   \<and> (step s s' \<longrightarrow>
      cpus (our_isolated_cpus s') \<subseteq> cpus (our_isolated_cpus s) \<union> cpus (reserve_cpus s)
      \<and> reserve_cpus s' = reserve_cpus s)"
proof -
  have "cpus (our_isolated_cpus s) \<subseteq> cpus (reserve_cpus s) \<and> reserve_cpus s = reserve"
    if "reachable reserve s"
    using reachable_isolated [OF that] by (auto simp add: cpus_iff)
  moreover have "cpus (our_isolated_cpus s') \<subseteq> cpus (our_isolated_cpus s) \<union> cpus (reserve_cpus s)
      \<and> reserve_cpus s' = reserve_cpus s"
    if "step s s'"
    using step_isolated [OF that] by (simp add: cpus_iff subset_iff)
  ultimately show ?thesis
    by blast
qed

theorem isolated_subset_reserve_witness:
  "reachable (12 :: 4 word)
     (fst (hyp_core_ctl_do_reservation (uniform_platform 15 0 0) (hyp_core_ctl_init 12)))
   \<and> step (hyp_core_ctl_init (12 :: 4 word))
     (fst (hyp_core_ctl_do_reservation (uniform_platform 15 0 0) (hyp_core_ctl_init 12)))
   \<and> cpus (our_isolated_cpus
       (fst (hyp_core_ctl_do_reservation (uniform_platform 15 0 0) (hyp_core_ctl_init (12 :: 4 word)))))
       = {2, 3}
   \<and> cpus (our_isolated_cpus
       (fst (hyp_core_ctl_do_reservation (uniform_platform 15 0 0) (hyp_core_ctl_init (12 :: 4 word)))))
     \<subseteq> cpus (reserve_cpus
       (fst (hyp_core_ctl_do_reservation (uniform_platform 15 0 0) (hyp_core_ctl_init (12 :: 4 word)))))"
proof -
  let ?s = "fst (hyp_core_ctl_do_reservation (uniform_platform 15 0 0) (hyp_core_ctl_init (12 :: 4 word)))"
  have st: "step (hyp_core_ctl_init (12 :: 4 word)) ?s"
    by (rule step.apply_reservation)
  have re: "reachable (12 :: 4 word) ?s"
    using reachable.initial st by (rule reachable.after_step)
  have v: "cpus (our_isolated_cpus ?s) = {2, 3}"
    by code_simp
  show ?thesis
    using isolated_subset_reserve [of 12 ?s] isolated_subset_reserve [of 12 "hyp_core_ctl_init 12" ?s]
      st re v
    by blast
qed

subsection \<open>Applying the reservation\<close>

text \<open>
  C2, as stated: from every state, if every isolate call succeeds, one invocation of
  \<open>hyp_core_ctl_do_reservation\<close> leaves \<open>our_isolated_cpus\<close> equal to the online CPUs of
  \<open>reserve_cpus\<close>. It fails when \<open>our_isolated_cpus\<close> holds a CPU that is offline, since the
  function only adds CPUs. Such a state arises when CPUs 2 and 3 are isolated, the
  reservation is disabled, CPU 2 goes offline before the undoing has released it
  (\<open>hyp_core_ctl_hp_offline\<close> returns at once while the reservation is disabled), and the
  reservation is enabled again: with \<open>reserve_cpus = our_isolated_cpus = {2, 3}\<close> and CPU 2
  offline, the invocation keeps \<open>our_isolated_cpus = {2, 3}\<close> while the online CPUs of
  \<open>reserve_cpus\<close> are \<open>{3}\<close>.
\<close>

theorem do_reservation_converges_counterexample:
  "cpus (our_isolated_cpus
     (fst (hyp_core_ctl_do_reservation (uniform_platform (11 :: 4 word) 0 0)
        \<lparr>pending = False, reservation_enabled = True, reserve_cpus = 12,
         our_isolated_cpus = 12, final_reserved_cpus = 12\<rparr>))) \<noteq>
   {c. c \<in> cpus (12 :: 4 word) \<and> cpu_online (uniform_platform (11 :: 4 word) 0 0) c}"
proof -
  have "(2 :: nat) \<in> cpus (our_isolated_cpus
     (fst (hyp_core_ctl_do_reservation (uniform_platform (11 :: 4 word) 0 0)
        \<lparr>pending = False, reservation_enabled = True, reserve_cpus = 12,
         our_isolated_cpus = 12, final_reserved_cpus = 12\<rparr>)))"
    by code_simp
  moreover have "\<not> cpu_online (uniform_platform (11 :: 4 word) 0 0) 2"
    by code_simp
  ultimately show ?thesis
    by blast
qed

text \<open>
  C2, amended: if \<open>our_isolated_cpus\<close> holds only online CPUs of \<open>reserve_cpus\<close> at entry and
  every isolate call of the invocation succeeds, then one invocation of
  \<open>hyp_core_ctl_do_reservation\<close> leaves \<open>our_isolated_cpus\<close> equal to the online CPUs of
  \<open>reserve_cpus\<close>; and a further invocation under the same online mask returns that state
  unchanged and makes no call.
\<close>

theorem do_reservation_converges:
  assumes "cpus (our_isolated_cpus hcd) \<subseteq> {c. c \<in> cpus (reserve_cpus hcd) \<and> cpu_online p c}"
    and "\<forall>c. Sched_isolate_cpu c \<in> set (snd (hyp_core_ctl_do_reservation p hcd))
            \<longrightarrow> 0 \<le> sched_isolate_cpu p c"
    and "cpu_online_mask p' = cpu_online_mask p"
  shows "cpus (our_isolated_cpus (fst (hyp_core_ctl_do_reservation p hcd))) =
           {c. c \<in> cpus (reserve_cpus hcd) \<and> cpu_online p c}
         \<and> hyp_core_ctl_do_reservation p' (fst (hyp_core_ctl_do_reservation p hcd)) =
             (fst (hyp_core_ctl_do_reservation p hcd), [])"
proof -
  have "cpus (our_isolated_cpus (fst (hyp_core_ctl_do_reservation p hcd))) =
           {c. c \<in> cpus (reserve_cpus hcd) \<and> cpu_online p c}"
    using assms(1,2)
    by (auto simp add: cpus_iff do_reservation_isolated isolate_called_iff)
  then show ?thesis
    using do_reservation_again [OF assms(2,3)] by simp
qed

theorem do_reservation_converges_witness:
  "cpus (our_isolated_cpus
     (fst (hyp_core_ctl_do_reservation (uniform_platform (11 :: 4 word) 0 0) (hyp_core_ctl_init 12))))
     = {3}
   \<and> hyp_core_ctl_do_reservation (uniform_platform (11 :: 4 word) (- 22) 0)
       (fst (hyp_core_ctl_do_reservation (uniform_platform (11 :: 4 word) 0 0) (hyp_core_ctl_init 12)))
     = (\<lparr>pending = False, reservation_enabled = False, reserve_cpus = 12,
         our_isolated_cpus = 8, final_reserved_cpus = 12\<rparr>, [])"
proof -
  let ?p = "uniform_platform (11 :: 4 word) 0 0"
  let ?p' = "uniform_platform (11 :: 4 word) (- 22) 0"
  have a: "cpus (our_isolated_cpus (hyp_core_ctl_init (12 :: 4 word))) \<subseteq>
      {c. c \<in> cpus (reserve_cpus (hyp_core_ctl_init (12 :: 4 word))) \<and> cpu_online ?p c}"
    by (simp add: hyp_core_ctl_init_def cpus_iff subset_iff)
  have b: "\<forall>c. Sched_isolate_cpu c \<in> set (snd (hyp_core_ctl_do_reservation ?p (hyp_core_ctl_init 12)))
            \<longrightarrow> 0 \<le> sched_isolate_cpu ?p c"
    by (simp add: uniform_platform_def)
  have c: "cpu_online_mask ?p' = cpu_online_mask ?p"
    by (simp add: uniform_platform_def)
  have v: "fst (hyp_core_ctl_do_reservation ?p (hyp_core_ctl_init 12)) =
      \<lparr>pending = False, reservation_enabled = False, reserve_cpus = 12,
         our_isolated_cpus = 8, final_reserved_cpus = 12\<rparr>"
    by code_simp
  have w: "{c. c \<in> cpus (12 :: 4 word) \<and> cpu_online ?p c} = {3}"
  proof -
    have "cpus (12 :: 4 word) = {2, 3}" by code_simp
    moreover have "cpu_online ?p 3" by code_simp
    moreover have "\<not> cpu_online ?p 2" by code_simp
    ultimately show ?thesis by auto
  qed
  have r: "reserve_cpus (hyp_core_ctl_init (12 :: 4 word)) = 12"
    by (simp add: hyp_core_ctl_init_def)
  show ?thesis
    using do_reservation_converges [OF a b c] w
    by (simp add: v r)
qed

text \<open>
  C5, as stated: if \<open>sched_isolate_cpu\<close> fails for a CPU \<open>c\<close> of \<open>reserve_cpus\<close> during an
  invocation of \<open>hyp_core_ctl_do_reservation\<close>, a subsequent invocation calls it for \<open>c\<close>
  again. It fails when \<open>c\<close> has gone offline in between, since the loop skips an offline
  CPU: with \<open>reserve_cpus = {2, 3}\<close>, all CPUs online and the call for CPU 2 returning
  \<open>-22\<close>, the first invocation calls \<open>sched_isolate_cpu\<close> for CPU 2 and leaves it out of
  \<open>our_isolated_cpus\<close>; the next invocation, with CPU 2 offline, makes no call for CPU 2.
\<close>

theorem isolate_failure_retried_counterexample:
  "Sched_isolate_cpu 2 \<in> set (snd (hyp_core_ctl_do_reservation
      \<lparr>cpu_online_mask = 15 :: 4 word, sched_isolate_cpu = (\<lambda>cpu. if cpu = 2 then - 22 else 0),
       sched_unisolate_cpu = (\<lambda>cpu. 0)\<rparr>
      (hyp_core_ctl_init 12)))
   \<and> sched_isolate_cpu
      \<lparr>cpu_online_mask = 15 :: 4 word, sched_isolate_cpu = (\<lambda>cpu. if cpu = 2 then - 22 else 0),
       sched_unisolate_cpu = (\<lambda>cpu. 0)\<rparr> 2 < 0
   \<and> 2 \<in> cpus (reserve_cpus (hyp_core_ctl_init (12 :: 4 word)))
   \<and> Sched_isolate_cpu 2 \<notin> set (snd (hyp_core_ctl_do_reservation (uniform_platform 11 0 0)
      (fst (hyp_core_ctl_do_reservation
        \<lparr>cpu_online_mask = 15 :: 4 word, sched_isolate_cpu = (\<lambda>cpu. if cpu = 2 then - 22 else 0),
         sched_unisolate_cpu = (\<lambda>cpu. 0)\<rparr>
        (hyp_core_ctl_init 12)))))"
proof -
  let ?p = "\<lparr>cpu_online_mask = 15 :: 4 word, sched_isolate_cpu = (\<lambda>cpu. if cpu = 2 then - 22 else 0),
       sched_unisolate_cpu = (\<lambda>cpu. 0)\<rparr>"
  have first: "snd (hyp_core_ctl_do_reservation ?p (hyp_core_ctl_init 12)) =
      [Sched_isolate_cpu 2, Sched_isolate_cpu 3]"
    by code_simp
  have second: "snd (hyp_core_ctl_do_reservation (uniform_platform 11 0 0)
      (fst (hyp_core_ctl_do_reservation ?p (hyp_core_ctl_init 12)))) = []"
    by code_simp
  have member: "(2 :: nat) \<in> cpus (reserve_cpus (hyp_core_ctl_init (12 :: 4 word)))"
    by code_simp
  show ?thesis
    unfolding first second using member by simp
qed

text \<open>
  C5, amended: if \<open>sched_isolate_cpu\<close> is called for a CPU \<open>c\<close> during an invocation of
  \<open>hyp_core_ctl_do_reservation\<close> and fails, then \<open>c\<close> is a CPU of \<open>reserve_cpus\<close> that is not in
  \<open>our_isolated_cpus\<close> afterwards; the invocation still calls \<open>sched_isolate_cpu\<close> for every
  online CPU of the iteration set, in ascending order, so that every CPU \<open>d\<close> of the set ends
  in \<open>our_isolated_cpus\<close> exactly when it is online and its call succeeds, and in
  \<open>final_reserved_cpus\<close> when it is offline; and the next invocation calls
  \<open>sched_isolate_cpu\<close> for \<open>c\<close> again, provided \<open>c\<close> is online at that invocation.
\<close>

theorem isolate_failure_retried:
  assumes "Sched_isolate_cpu c \<in> set (snd (hyp_core_ctl_do_reservation p hcd))"
    and "sched_isolate_cpu p c < 0"
  shows "c \<in> cpus (reserve_cpus hcd)
     \<and> c \<notin> cpus (our_isolated_cpus (fst (hyp_core_ctl_do_reservation p hcd)))
     \<and> snd (hyp_core_ctl_do_reservation p hcd) =
         map Sched_isolate_cpu (filter (cpu_online p)
           (for_each_cpu (cpumask_andnot (reserve_cpus hcd) (our_isolated_cpus hcd))))
     \<and> (\<forall>d \<in> set (for_each_cpu (cpumask_andnot (reserve_cpus hcd) (our_isolated_cpus hcd))).
          (d \<in> cpus (our_isolated_cpus (fst (hyp_core_ctl_do_reservation p hcd)))
             \<longleftrightarrow> cpu_online p d \<and> 0 \<le> sched_isolate_cpu p d)
          \<and> (\<not> cpu_online p d \<longrightarrow>
                d \<in> cpus (final_reserved_cpus (fst (hyp_core_ctl_do_reservation p hcd)))))
     \<and> (cpu_online p' c \<longrightarrow>
          Sched_isolate_cpu c \<in>
            set (snd (hyp_core_ctl_do_reservation p' (fst (hyp_core_ctl_do_reservation p hcd)))))"
proof -
  from assms(1) have c: "bit (reserve_cpus hcd) c" "\<not> bit (our_isolated_cpus hcd) c" "cpu_online p c"
    by (simp_all add: isolate_called_iff)
  have absent: "\<not> bit (our_isolated_cpus (fst (hyp_core_ctl_do_reservation p hcd))) c"
    using c assms(2) by (simp add: do_reservation_isolated)
  have others: "\<forall>d \<in> set (for_each_cpu (cpumask_andnot (reserve_cpus hcd) (our_isolated_cpus hcd))).
          (d \<in> cpus (our_isolated_cpus (fst (hyp_core_ctl_do_reservation p hcd)))
             \<longleftrightarrow> cpu_online p d \<and> 0 \<le> sched_isolate_cpu p d)
          \<and> (\<not> cpu_online p d \<longrightarrow>
                d \<in> cpus (final_reserved_cpus (fst (hyp_core_ctl_do_reservation p hcd))))"
    by (auto simp add: set_for_each_cpu cpumask_andnot_def bit_simps cpus_iff
        do_reservation_isolated do_reservation_final)
  have again: "Sched_isolate_cpu c \<in>
            set (snd (hyp_core_ctl_do_reservation p' (fst (hyp_core_ctl_do_reservation p hcd))))"
    if "cpu_online p' c"
    using that c absent by (simp add: isolate_called_iff do_reservation_fields)
  show ?thesis
    using c absent others again
    by (simp add: cpus_iff do_reservation_log)
qed

theorem isolate_failure_retried_witness:
  "snd (hyp_core_ctl_do_reservation
      \<lparr>cpu_online_mask = 15 :: 4 word, sched_isolate_cpu = (\<lambda>cpu. if cpu = 2 then - 22 else 0),
       sched_unisolate_cpu = (\<lambda>cpu. 0)\<rparr>
      (hyp_core_ctl_init 12)) = [Sched_isolate_cpu 2, Sched_isolate_cpu 3]
   \<and> cpus (our_isolated_cpus (fst (hyp_core_ctl_do_reservation
      \<lparr>cpu_online_mask = 15 :: 4 word, sched_isolate_cpu = (\<lambda>cpu. if cpu = 2 then - 22 else 0),
       sched_unisolate_cpu = (\<lambda>cpu. 0)\<rparr>
      (hyp_core_ctl_init 12)))) = {3}
   \<and> Sched_isolate_cpu 2 \<in> set (snd (hyp_core_ctl_do_reservation (uniform_platform 15 0 0)
      (fst (hyp_core_ctl_do_reservation
        \<lparr>cpu_online_mask = 15 :: 4 word, sched_isolate_cpu = (\<lambda>cpu. if cpu = 2 then - 22 else 0),
         sched_unisolate_cpu = (\<lambda>cpu. 0)\<rparr>
        (hyp_core_ctl_init 12)))))"
proof -
  let ?p = "\<lparr>cpu_online_mask = 15 :: 4 word, sched_isolate_cpu = (\<lambda>cpu. if cpu = 2 then - 22 else 0),
       sched_unisolate_cpu = (\<lambda>cpu. 0)\<rparr>"
  have l: "snd (hyp_core_ctl_do_reservation ?p (hyp_core_ctl_init 12)) =
      [Sched_isolate_cpu 2, Sched_isolate_cpu 3]"
    by code_simp
  have a: "Sched_isolate_cpu 2 \<in> set (snd (hyp_core_ctl_do_reservation ?p (hyp_core_ctl_init 12)))"
    by (simp add: l)
  have b: "sched_isolate_cpu ?p 2 < 0"
    by simp
  have o: "cpu_online (uniform_platform (15 :: 4 word) 0 0) 2"
    by code_simp
  have i: "cpus (our_isolated_cpus (fst (hyp_core_ctl_do_reservation ?p (hyp_core_ctl_init 12)))) = {3}"
    by code_simp
  show ?thesis
    using isolate_failure_retried [OF a b, of "uniform_platform (15 :: 4 word) 0 0"] o l i
    by blast
qed

text \<open>
  C6, as stated: from every state, a second invocation of \<open>hyp_core_ctl_do_reservation\<close>
  right after a first one makes no isolate call. It fails when an isolate call of the first
  invocation failed: with \<open>reserve_cpus = {2, 3}\<close>, all CPUs online and \<open>sched_isolate_cpu\<close>
  returning \<open>-22\<close>, the second invocation calls it for CPUs 2 and 3 again.
\<close>

theorem do_reservation_twice_counterexample:
  "snd (hyp_core_ctl_do_reservation (uniform_platform (15 :: 4 word) (- 22) 0)
     (fst (hyp_core_ctl_do_reservation (uniform_platform (15 :: 4 word) (- 22) 0)
        (hyp_core_ctl_init 12)))) = [Sched_isolate_cpu 2, Sched_isolate_cpu 3]
   \<and> snd (hyp_core_ctl_do_reservation (uniform_platform (15 :: 4 word) (- 22) 0)
     (fst (hyp_core_ctl_do_reservation (uniform_platform (15 :: 4 word) (- 22) 0)
        (hyp_core_ctl_init 12)))) \<noteq> []"
proof -
  have "snd (hyp_core_ctl_do_reservation (uniform_platform (15 :: 4 word) (- 22) 0)
     (fst (hyp_core_ctl_do_reservation (uniform_platform (15 :: 4 word) (- 22) 0)
        (hyp_core_ctl_init 12)))) = [Sched_isolate_cpu 2, Sched_isolate_cpu 3]"
    by code_simp
  then show ?thesis
    by simp
qed

text \<open>
  C6, amended: a second invocation of \<open>hyp_core_ctl_do_reservation\<close> right after a first
  one, under the same online mask, makes no unisolate call and calls \<open>sched_isolate_cpu\<close>
  for exactly the CPUs whose call failed during the first invocation; when no isolate call
  of the first invocation failed, the second makes no call and returns the state unchanged,
  \<open>our_isolated_cpus\<close> and \<open>final_reserved_cpus\<close> included.
\<close>

theorem do_reservation_twice:
  assumes "cpu_online_mask p' = cpu_online_mask p"
  shows "snd (hyp_core_ctl_do_reservation p' (fst (hyp_core_ctl_do_reservation p hcd))) =
           map Sched_isolate_cpu (filter (\<lambda>c. cpu_online p c \<and> sched_isolate_cpu p c < 0)
             (for_each_cpu (cpumask_andnot (reserve_cpus hcd) (our_isolated_cpus hcd))))
         \<and> ((\<forall>c. Sched_isolate_cpu c \<in> set (snd (hyp_core_ctl_do_reservation p hcd))
                \<longrightarrow> 0 \<le> sched_isolate_cpu p c) \<longrightarrow>
              hyp_core_ctl_do_reservation p' (fst (hyp_core_ctl_do_reservation p hcd)) =
                (fst (hyp_core_ctl_do_reservation p hcd), []))"
proof -
  let ?s = "fst (hyp_core_ctl_do_reservation p hcd)"
  have on: "cpu_online p' = cpu_online p"
    using assms by (rule cpu_online_cong)
  have "filter (cpu_online p) (for_each_cpu (cpumask_andnot (reserve_cpus ?s) (our_isolated_cpus ?s))) =
      filter (\<lambda>c. cpu_online p c \<and> sched_isolate_cpu p c < 0)
        (for_each_cpu (cpumask_andnot (reserve_cpus hcd) (our_isolated_cpus hcd)))"
    unfolding for_each_cpu_def filter_filter nr_cpu_ids_def
    by (rule filter_cong)
       (auto simp add: cpumask_test_cpu_def cpumask_andnot_def bit_simps do_reservation_fields
          do_reservation_isolated)
  then have "snd (hyp_core_ctl_do_reservation p' ?s) =
           map Sched_isolate_cpu (filter (\<lambda>c. cpu_online p c \<and> sched_isolate_cpu p c < 0)
             (for_each_cpu (cpumask_andnot (reserve_cpus hcd) (our_isolated_cpus hcd))))"
    by (simp add: do_reservation_log [of p' ?s] on)
  then show ?thesis
    using do_reservation_again [OF _ assms, of hcd] by blast
qed

theorem do_reservation_twice_witness:
  "snd (hyp_core_ctl_do_reservation
      \<lparr>cpu_online_mask = 15 :: 4 word, sched_isolate_cpu = (\<lambda>cpu. if cpu = 2 then - 22 else 0),
       sched_unisolate_cpu = (\<lambda>cpu. 0)\<rparr>
      (fst (hyp_core_ctl_do_reservation
        \<lparr>cpu_online_mask = 15 :: 4 word, sched_isolate_cpu = (\<lambda>cpu. if cpu = 2 then - 22 else 0),
         sched_unisolate_cpu = (\<lambda>cpu. 0)\<rparr>
        (hyp_core_ctl_init 12)))) = [Sched_isolate_cpu 2]
   \<and> hyp_core_ctl_do_reservation (uniform_platform (15 :: 4 word) 0 0)
      (fst (hyp_core_ctl_do_reservation (uniform_platform (15 :: 4 word) 0 0) (hyp_core_ctl_init 12))) =
      (\<lparr>pending = False, reservation_enabled = False, reserve_cpus = 12,
        our_isolated_cpus = 12, final_reserved_cpus = 12\<rparr>, [])"
proof -
  let ?p = "\<lparr>cpu_online_mask = 15 :: 4 word, sched_isolate_cpu = (\<lambda>cpu. if cpu = 2 then - 22 else 0),
       sched_unisolate_cpu = (\<lambda>cpu. 0)\<rparr>"
  let ?q = "uniform_platform (15 :: 4 word) 0 0"
  have l: "filter (\<lambda>c. cpu_online ?p c \<and> sched_isolate_cpu ?p c < 0)
      (for_each_cpu (cpumask_andnot (reserve_cpus (hyp_core_ctl_init (12 :: 4 word)))
         (our_isolated_cpus (hyp_core_ctl_init (12 :: 4 word))))) = [2]"
    by code_simp
  have ok: "\<forall>c. Sched_isolate_cpu c \<in> set (snd (hyp_core_ctl_do_reservation ?q (hyp_core_ctl_init 12)))
      \<longrightarrow> 0 \<le> sched_isolate_cpu ?q c"
    by (simp add: uniform_platform_def)
  have v: "fst (hyp_core_ctl_do_reservation ?q (hyp_core_ctl_init 12)) =
      \<lparr>pending = False, reservation_enabled = False, reserve_cpus = 12,
        our_isolated_cpus = 12, final_reserved_cpus = 12\<rparr>"
    by code_simp
  have a: "snd (hyp_core_ctl_do_reservation ?p (fst (hyp_core_ctl_do_reservation ?p (hyp_core_ctl_init 12))))
      = [Sched_isolate_cpu 2]"
    using do_reservation_twice [OF refl, of ?p "hyp_core_ctl_init 12"] unfolding l by simp
  have b: "hyp_core_ctl_do_reservation ?q (fst (hyp_core_ctl_do_reservation ?q (hyp_core_ctl_init 12))) =
      (fst (hyp_core_ctl_do_reservation ?q (hyp_core_ctl_init 12)), [])"
    using do_reservation_twice [OF refl, of ?q "hyp_core_ctl_init 12"] ok by blast
  show ?thesis
    using a b unfolding v by simp
qed

subsection \<open>Undoing the reservation\<close>

text \<open>
  C7: \<open>hyp_core_ctl_undo_reservation\<close> calls \<open>sched_unisolate_cpu\<close> once for each CPU of
  \<open>our_isolated_cpus\<close>, in ascending order, and makes no other call; afterwards
  \<open>our_isolated_cpus\<close> holds exactly the CPUs of before whose call failed, so a CPU is
  removed exactly when its call succeeds. The other fields are unchanged.
\<close>

theorem undo_reservation_unisolates:
  "snd (hyp_core_ctl_undo_reservation p hcd) =
     map Sched_unisolate_cpu (for_each_cpu (our_isolated_cpus hcd))
   \<and> cpus (our_isolated_cpus (fst (hyp_core_ctl_undo_reservation p hcd))) =
       {c. c \<in> cpus (our_isolated_cpus hcd) \<and> sched_unisolate_cpu p c < 0}
   \<and> fst (hyp_core_ctl_undo_reservation p hcd) =
       hcd\<lparr>our_isolated_cpus := our_isolated_cpus (fst (hyp_core_ctl_undo_reservation p hcd))\<rparr>"
proof -
  have "cpus (our_isolated_cpus (fst (hyp_core_ctl_undo_reservation p hcd))) =
       {c. c \<in> cpus (our_isolated_cpus hcd) \<and> sched_unisolate_cpu p c < 0}"
    by (auto simp add: cpus_iff undo_reservation_isolated)
  moreover have "fst (hyp_core_ctl_undo_reservation p hcd) =
       hcd\<lparr>our_isolated_cpus := our_isolated_cpus (fst (hyp_core_ctl_undo_reservation p hcd))\<rparr>"
    by (rule hcd_eqI) (simp_all add: undo_reservation_fields)
  ultimately show ?thesis
    by (simp add: undo_reservation_log)
qed

text \<open>
  The scenario of C7: with \<open>our_isolated_cpus = {2, 3}\<close> and both calls succeeding,
  \<open>sched_unisolate_cpu\<close> is called for CPU 2 and for CPU 3 and \<open>our_isolated_cpus\<close> becomes
  empty.
\<close>

theorem undo_reservation_unisolates_witness:
  "snd (hyp_core_ctl_undo_reservation (uniform_platform (15 :: 4 word) 0 0)
      \<lparr>pending = False, reservation_enabled = False, reserve_cpus = 12,
       our_isolated_cpus = 12, final_reserved_cpus = 12\<rparr>) =
     [Sched_unisolate_cpu 2, Sched_unisolate_cpu 3]
   \<and> cpus (our_isolated_cpus (fst (hyp_core_ctl_undo_reservation (uniform_platform (15 :: 4 word) 0 0)
      \<lparr>pending = False, reservation_enabled = False, reserve_cpus = 12,
       our_isolated_cpus = 12, final_reserved_cpus = 12\<rparr>))) = {}"
proof -
  have l: "for_each_cpu (12 :: 4 word) = [2, 3]"
    by code_simp
  have r: "sched_unisolate_cpu (uniform_platform (15 :: 4 word) 0 0) = (\<lambda>cpu. 0)"
    by (simp add: uniform_platform_def)
  show ?thesis
    using undo_reservation_unisolates [of "uniform_platform (15 :: 4 word) 0 0"
        "\<lparr>pending = False, reservation_enabled = False, reserve_cpus = 12,
          our_isolated_cpus = 12, final_reserved_cpus = 12\<rparr>"]
    by (simp add: l r)
qed

text \<open>
  C10: only \<open>hyp_core_ctl_do_reservation\<close> writes \<open>final_reserved_cpus\<close>.
  \<open>hyp_core_ctl_undo_reservation\<close>, the two hotplug callbacks and the toggle return it as
  they found it, also when they take CPUs out of \<open>our_isolated_cpus\<close>.
\<close>

theorem final_reserved_frame:
  "final_reserved_cpus (fst (hyp_core_ctl_undo_reservation p hcd)) = final_reserved_cpus hcd
   \<and> map_option final_reserved_cpus (fst (snd (hyp_core_ctl_hp_offline c the_hcd))) =
       map_option final_reserved_cpus the_hcd
   \<and> map_option final_reserved_cpus (fst (snd (hyp_core_ctl_hp_online c the_hcd))) =
       map_option final_reserved_cpus the_hcd
   \<and> (\<forall>r. hyp_core_ctl_enable x the_hcd = Inr r \<longrightarrow>
         map_option final_reserved_cpus (fst r) = map_option final_reserved_cpus the_hcd)"
  by (auto simp add: undo_reservation_fields hyp_core_ctl_hp_offline_def hyp_core_ctl_hp_online_def
      hyp_core_ctl_enable_def split: option.splits if_splits)

theorem final_reserved_frame_witness:
  "final_reserved_cpus (fst (hyp_core_ctl_undo_reservation (uniform_platform (15 :: 4 word) 0 0)
      \<lparr>pending = False, reservation_enabled = False, reserve_cpus = 12,
       our_isolated_cpus = 12, final_reserved_cpus = 12\<rparr>)) = 12
   \<and> our_isolated_cpus (fst (hyp_core_ctl_undo_reservation (uniform_platform (15 :: 4 word) 0 0)
      \<lparr>pending = False, reservation_enabled = False, reserve_cpus = 12,
       our_isolated_cpus = 12, final_reserved_cpus = 12\<rparr>)) = 0
   \<and> hyp_core_ctl_enable True
       (Some \<lparr>pending = False, reservation_enabled = False, reserve_cpus = 12 :: 4 word,
              our_isolated_cpus = 12, final_reserved_cpus = 12\<rparr>) =
       Inr (Some \<lparr>pending = True, reservation_enabled = True, reserve_cpus = 12 :: 4 word,
              our_isolated_cpus = 12, final_reserved_cpus = 12\<rparr>, [Wake_up_process])"
proof -
  have i: "our_isolated_cpus (fst (hyp_core_ctl_undo_reservation (uniform_platform (15 :: 4 word) 0 0)
      \<lparr>pending = False, reservation_enabled = False, reserve_cpus = 12,
       our_isolated_cpus = 12, final_reserved_cpus = 12\<rparr>)) = 0"
    by code_simp
  have e: "hyp_core_ctl_enable True
       (Some \<lparr>pending = False, reservation_enabled = False, reserve_cpus = 12 :: 4 word,
              our_isolated_cpus = 12, final_reserved_cpus = 12\<rparr>) =
       Inr (Some \<lparr>pending = True, reservation_enabled = True, reserve_cpus = 12 :: 4 word,
              our_isolated_cpus = 12, final_reserved_cpus = 12\<rparr>, [Wake_up_process])"
    by (simp add: hyp_core_ctl_enable_def)
  show ?thesis
    using final_reserved_frame [of "uniform_platform (15 :: 4 word) 0 0"
        "\<lparr>pending = False, reservation_enabled = False, reserve_cpus = 12,
          our_isolated_cpus = 12, final_reserved_cpus = 12\<rparr>" 2
        "Some \<lparr>pending = False, reservation_enabled = False, reserve_cpus = 12 :: 4 word,
              our_isolated_cpus = 12, final_reserved_cpus = 12\<rparr>" True] i e
    by simp
qed

subsection \<open>The hotplug callbacks and the toggle\<close>

text \<open>
  C3: when \<open>hyp_core_ctl_hp_offline\<close> runs for a CPU of \<open>our_isolated_cpus\<close> while the
  reservation is enabled, it calls \<open>sched_unisolate_cpu_unlocked\<close> for that CPU and clears
  the CPU in \<open>our_isolated_cpus\<close>, so that the CPU is no longer there when it returns,
  nothing else being changed; when the reservation is not enabled, it changes nothing and
  calls nothing.
\<close>

theorem hp_offline_unisolates:
  "(reservation_enabled hcd \<and> c \<in> cpus (our_isolated_cpus hcd) \<longrightarrow>
      hyp_core_ctl_hp_offline c (Some hcd) =
        (0, Some (hcd\<lparr>our_isolated_cpus := cpumask_clear_cpu c (our_isolated_cpus hcd)\<rparr>),
         [Sched_unisolate_cpu_unlocked c])
      \<and> c \<notin> cpus (cpumask_clear_cpu c (our_isolated_cpus hcd))
      \<and> cpus (cpumask_clear_cpu c (our_isolated_cpus hcd)) = cpus (our_isolated_cpus hcd) - {c})
   \<and> (\<not> reservation_enabled hcd \<longrightarrow> hyp_core_ctl_hp_offline c (Some hcd) = (0, Some hcd, []))"
proof -
  have "hyp_core_ctl_hp_offline c (Some hcd) =
        (0, Some (hcd\<lparr>our_isolated_cpus := cpumask_clear_cpu c (our_isolated_cpus hcd)\<rparr>),
         [Sched_unisolate_cpu_unlocked c])"
    if "reservation_enabled hcd" "c \<in> cpus (our_isolated_cpus hcd)"
    using that by (simp add: hyp_core_ctl_hp_offline_def cpus_iff cpumask_test_cpu_def)
  moreover have "c \<notin> cpus (cpumask_clear_cpu c (our_isolated_cpus hcd))"
    by (simp add: cpus_iff cpumask_clear_cpu_def bit_simps)
  moreover have "cpus (cpumask_clear_cpu c (our_isolated_cpus hcd)) = cpus (our_isolated_cpus hcd) - {c}"
    by (auto simp add: cpus_iff cpumask_clear_cpu_def bit_simps)
  moreover have "hyp_core_ctl_hp_offline c (Some hcd) = (0, Some hcd, [])"
    if "\<not> reservation_enabled hcd"
    using that by (simp add: hyp_core_ctl_hp_offline_def)
  ultimately show ?thesis
    by blast
qed

theorem hp_offline_unisolates_witness:
  "hyp_core_ctl_hp_offline 2
     (Some \<lparr>pending = False, reservation_enabled = True, reserve_cpus = 12 :: 4 word,
            our_isolated_cpus = 12, final_reserved_cpus = 12\<rparr>) =
     (0, Some \<lparr>pending = False, reservation_enabled = True, reserve_cpus = 12 :: 4 word,
            our_isolated_cpus = 8, final_reserved_cpus = 12\<rparr>, [Sched_unisolate_cpu_unlocked 2])
   \<and> cpus (8 :: 4 word) = cpus (12 :: 4 word) - {2}
   \<and> hyp_core_ctl_hp_offline 2
     (Some \<lparr>pending = False, reservation_enabled = False, reserve_cpus = 12 :: 4 word,
            our_isolated_cpus = 12, final_reserved_cpus = 12\<rparr>) =
     (0, Some \<lparr>pending = False, reservation_enabled = False, reserve_cpus = 12 :: 4 word,
            our_isolated_cpus = 12, final_reserved_cpus = 12\<rparr>, [])"
proof -
  have m: "(2 :: nat) \<in> cpus (12 :: 4 word)"
    by code_simp
  have c: "cpumask_clear_cpu 2 (12 :: 4 word) = 8"
    by code_simp
  show ?thesis
    using hp_offline_unisolates [of "\<lparr>pending = False, reservation_enabled = True,
        reserve_cpus = 12 :: 4 word, our_isolated_cpus = 12, final_reserved_cpus = 12\<rparr>" 2]
      hp_offline_unisolates [of "\<lparr>pending = False, reservation_enabled = False,
        reserve_cpus = 12 :: 4 word, our_isolated_cpus = 12, final_reserved_cpus = 12\<rparr>" 2] m
    by (simp add: c)
qed

text \<open>
  C8: \<open>hyp_core_ctl_enable x\<close> on an initialised driver whose \<open>reservation_enabled\<close> is
  already \<open>x\<close> changes nothing and wakes nobody; otherwise it sets \<open>reservation_enabled\<close> to
  \<open>x\<close> and \<open>pending\<close> to true, changes nothing else, and wakes the worker.
\<close>

theorem enable_toggle:
  "(reservation_enabled hcd = x \<longrightarrow> hyp_core_ctl_enable x (Some hcd) = Inr (Some hcd, []))
   \<and> (reservation_enabled hcd \<noteq> x \<longrightarrow>
        hyp_core_ctl_enable x (Some hcd) =
          Inr (Some (hcd\<lparr>reservation_enabled := x, pending := True\<rparr>), [Wake_up_process]))"
  by (auto simp add: hyp_core_ctl_enable_def)

theorem enable_toggle_witness:
  "hyp_core_ctl_enable True (Some (hyp_core_ctl_init (12 :: 4 word))) =
     Inr (Some \<lparr>pending = True, reservation_enabled = True, reserve_cpus = 12,
                our_isolated_cpus = 0, final_reserved_cpus = 0\<rparr>, [Wake_up_process])
   \<and> hyp_core_ctl_enable False (Some (hyp_core_ctl_init (12 :: 4 word))) =
     Inr (Some (hyp_core_ctl_init 12), [])"
  using enable_toggle [of "hyp_core_ctl_init (12 :: 4 word)" True]
    enable_toggle [of "hyp_core_ctl_init (12 :: 4 word)" False]
  by (simp add: hyp_core_ctl_init_def)

text \<open>
  C9: \<open>enable_store\<close> has no check of \<open>the_hcd\<close>. Whenever \<open>kstrtobool\<close> accepts the
  buffer it goes on to \<open>hyp_core_ctl_enable\<close> with the parsed value, so a valid write
  while \<open>the_hcd\<close> is \<open>NULL\<close> dereferences the null pointer, where \<open>enable_show\<close> returns
  \<open>-EPERM\<close>.
\<close>

theorem enable_store_unchecked:
  "0 \<le> fst (kstrtobool buf) \<longrightarrow>
     enable_store kstrtobool buf count (the_hcd :: 'n::len hyp_core_ctl_data option) =
       (case hyp_core_ctl_enable (snd (kstrtobool buf)) the_hcd of
          Inl f \<Rightarrow> Inl f | Inr (the_hcd', log) \<Rightarrow> Inr (count, the_hcd', log))
     \<and> enable_store kstrtobool buf count (None :: 'n hyp_core_ctl_data option) =
         Inl Null_pointer_dereference
     \<and> enable_show (None :: 'n hyp_core_ctl_data option) = Inl (- EPERM)"
  by (cases "kstrtobool buf")
     (simp add: enable_store_def enable_show_def hyp_core_ctl_enable_def)

theorem enable_store_unchecked_witness:
  "enable_store (\<lambda>buf. if buf = ''1'' then (0, True) else (- 22, False)) ''1'' 2
     (None :: 4 hyp_core_ctl_data option) = Inl Null_pointer_dereference
   \<and> enable_show (None :: 4 hyp_core_ctl_data option) = Inl (- 1)"
  using enable_store_unchecked [of "\<lambda>buf. if buf = ''1'' then (0, True) else (- 22, False)" "''1''" 2
      "None :: 4 hyp_core_ctl_data option"]
  by (simp add: EPERM_def hyp_core_ctl_enable_def)

end
